theory Spec2Isabelle
  imports Complex_Main
begin

section \<open>The network monitor page (src/app/page.tsx)\<close>

text \<open>
  The source file holds two revisions of the page component. Both share
  \<open>getColorByLoss\<close>, \<open>prepareScatterData\<close> and \<open>getStats\<close> word for word; they
  differ in \<open>getAllTimePoints\<close> and \<open>fetchNetworkData\<close>. Where they differ the
  earlier revision (lines 1-513) carries the suffix \<open>_v1\<close> and the later one
  (lines 513-1130) the suffix \<open>_v2\<close>.

  A JavaScript \<open>number\<close> that carries a measurement is a finite double,
  modelled as the \<open>real\<close> it denotes: comparisons are those of the source, and
  the arithmetic of \<open>getStats\<close> rounds every result to the nearest double.
  Minus zero is not told apart from zero, which compare equal. Epoch
  milliseconds, range minutes and array indices are integers. A \<open>Date\<close> is
  modelled by its time value, and \<open>Date.now()\<close> is a parameter \<open>clock\<close> of
  every function that reads it.
\<close>

subsection \<open>Data model\<close>

record NetworkData =
  ping :: real
  loss :: real
  ping_dev :: real
  loss_dev :: real

text \<open>The response handler spreads each item and adds \<open>time: index + 1\<close>.\<close>

record FormattedData = NetworkData +
  time :: nat

datatype metric = cloudflare | origin

definition TIME_RANGES :: "int list" where
  "TIME_RANGES = [5, 15, 30, 60, 180, 360, 1440]"

subsection \<open>Severity colour\<close>

definition getColorByLoss :: "real \<Rightarrow> string" where
  "getColorByLoss l =
     (if l = -1 then ''#9CA3AF''
      else if l \<le> 0 then ''#10B981''
      else if l \<le> 33 then ''#3B82F6''
      else if l \<le> 66 then ''#EF4444''
      else ''#8B5CF6'')"

subsection \<open>Bucket timeline\<close>

text \<open>
  The \<open>if\<close> chain that opens \<open>getAllTimePoints\<close>, the same in both revisions:
  the pair \<open>(unitMs, points)\<close> it assigns.
\<close>

definition cadence :: "int \<Rightarrow> int \<times> int" where
  "cadence rangeMinutes =
     (if rangeMinutes \<le> 60 then (30 * 1000, rangeMinutes * 2)
      else if rangeMinutes \<le> 1440 then (60 * 1000, rangeMinutes)
      else (60 * 60 * 1000, \<lceil>real_of_int rangeMinutes / 60\<rceil>))"

text \<open>
  \<open>Array.from({ length: points }, f)\<close> builds \<open>f\<close> at the indices
  \<open>0 ..< points\<close>; a negative length counts as zero.
\<close>

definition getAllTimePoints_v1 :: "int \<Rightarrow> int \<Rightarrow> int list" where
  "getAllTimePoints_v1 clock rangeMinutes =
     (let now = clock;
          (unitMs, points) = cadence rangeMinutes
      in map (\<lambda>index. now - ((points - 1 - int index) * unitMs)) [0..<nat points])"

text \<open>\<open>now || Date.now()\<close>: an absent and a zero \<open>now\<close> both fall back to the clock.\<close>

definition currentTime :: "int \<Rightarrow> int option \<Rightarrow> int" where
  "currentTime clock now =
     (case now of None \<Rightarrow> clock | Some n \<Rightarrow> if n = 0 then clock else n)"

definition getAllTimePoints_v2 :: "int \<Rightarrow> int \<Rightarrow> int option \<Rightarrow> int list" where
  "getAllTimePoints_v2 clock rangeMinutes now =
     (let (unitMs, points) = cadence rangeMinutes;
          startTime = currentTime clock now - ((points - 1) * unitMs)
      in map (\<lambda>index. startTime + (int index * unitMs)) [0..<nat points])"

subsection \<open>Scatter points\<close>

text \<open>
  One chart point per bucket. The fields are those of the object literal in
  \<open>prepareScatterData\<close> (\<open>x\<close>, \<open>y\<close>, \<open>loss\<close>, \<open>color\<close>, \<open>timeLabel\<close>, \<open>hasData\<close>),
  prefixed with \<open>pt_\<close>. \<open>y\<close> is \<open>null\<close> or a number. The label is formatted by the
  runtime's locale code; the model keeps what is passed to it: the time value
  and whether seconds are shown.
\<close>

record ScatterPoint =
  pt_x :: int
  pt_y :: "real option"
  pt_loss :: real
  pt_color :: string
  pt_timeLabel :: "int \<times> bool"
  pt_hasData :: bool

text \<open>\<open>data[index]\<close>: \<open>undefined\<close> past the end of the array.\<close>

definition at_index :: "'a list \<Rightarrow> nat \<Rightarrow> 'a option" where
  "at_index data index = (if index < length data then Some (data ! index) else None)"

text \<open>The callback of \<open>allTimePoints.map\<close>.\<close>

definition scatterPoint ::
  "int \<Rightarrow> 'a NetworkData_scheme list \<Rightarrow> metric \<Rightarrow> int \<Rightarrow> nat \<Rightarrow> ScatterPoint" where
  "scatterPoint selectedRange data type timePoint index =
     (let dataItem = at_index data index;
          pingv = (case dataItem of
                     Some d \<Rightarrow> (if type = cloudflare then ping d else ping_dev d)
                   | None \<Rightarrow> -1);
          lossv = (case dataItem of
                     Some d \<Rightarrow> (if type = cloudflare then loss d else loss_dev d)
                   | None \<Rightarrow> -1)
      in \<lparr>pt_x = timePoint,
          pt_y = (if pingv = -1 then None else Some pingv),
          pt_loss = lossv,
          pt_color = (if pingv = -1 then ''rgba(156, 163, 175, 0.3)''
                      else getColorByLoss lossv),
          pt_timeLabel = (timePoint, selectedRange \<le> 60),
          pt_hasData = (pingv \<noteq> -1)\<rparr>)"

definition prepareScatterData_v1 ::
  "int \<Rightarrow> int \<Rightarrow> 'a NetworkData_scheme list \<Rightarrow> metric \<Rightarrow> ScatterPoint list" where
  "prepareScatterData_v1 clock selectedRange data type =
     (let allTimePoints = getAllTimePoints_v1 clock selectedRange
      in map (\<lambda>(index, timePoint). scatterPoint selectedRange data type timePoint index)
           (enumerate 0 allTimePoints))"

definition prepareScatterData_v2 ::
  "int \<Rightarrow> int \<Rightarrow> int option \<Rightarrow> 'a NetworkData_scheme list \<Rightarrow> metric \<Rightarrow> ScatterPoint list" where
  "prepareScatterData_v2 clock selectedRange serverNow data type =
     (let allTimePoints = getAllTimePoints_v2 clock selectedRange serverNow
      in map (\<lambda>(index, timePoint). scatterPoint selectedRange data type timePoint index)
           (enumerate 0 allTimePoints))"

subsection \<open>Summary statistics\<close>

text \<open>
  The arithmetic of \<open>number\<close>. Every operation returns the double nearest to the
  exact result, a tie going to the even significand (IEEE 754 binary64,
  round to nearest even). A result is \<open>Some v\<close> for a finite double \<open>v\<close> and
  \<open>None\<close> when it is not finite (an infinity or \<open>NaN\<close>).
\<close>

definition pow2 :: "int \<Rightarrow> real" where
  "pow2 e = (if 0 \<le> e then 2 ^ nat e else 1 / 2 ^ nat (- e))"

text \<open>
  The binary exponent of a positive \<open>x\<close>: the \<open>e\<close> with \<open>2 ^ e \<le> x < 2 ^ (e + 1)\<close>,
  found by halving from above one and doubling from below it. It stops at 1024,
  beyond the largest double, and at -1022, the exponent of the subnormals.
\<close>

primrec expo_up :: "nat \<Rightarrow> real \<Rightarrow> int" where
  "expo_up 0 x = 0"
| "expo_up (Suc n) x = (if 2 \<le> x then 1 + expo_up n (x / 2) else 0)"

primrec expo_down :: "nat \<Rightarrow> real \<Rightarrow> int" where
  "expo_down 0 x = 0"
| "expo_down (Suc n) x = (if x < 1 then expo_down n (x * 2) - 1 else 0)"

definition expo :: "real \<Rightarrow> int" where
  "expo x = (if 1 \<le> \<bar>x\<bar> then expo_up 1024 \<bar>x\<bar> else expo_down 1022 \<bar>x\<bar>)"

definition round_even :: "real \<Rightarrow> int" where
  "round_even y =
     (let f = \<lfloor>y\<rfloor>; d = y - real_of_int f
      in if d < 1 / 2 then f else if 1 / 2 < d then f + 1
         else if even f then f else f + 1)"

text \<open>
  Rounding an exact result to a double: a whole multiple, below \<open>2 ^ 53\<close> in
  magnitude, of the unit in the last place. A rounded magnitude of \<open>2 ^ 1024\<close> or
  more is an overflow to infinity.
\<close>

definition fl :: "real \<Rightarrow> real option" where
  "fl x =
     (if x = 0 then Some 0
      else
        let u = pow2 (expo x - 52);
            r = real_of_int (round_even (x / u)) * u
        in if 2 ^ 1024 \<le> \<bar>r\<bar> then None else Some r)"

text \<open>The operators \<open>+\<close>, \<open>*\<close> and \<open>/\<close>; an operand that is not finite stays so.\<close>

definition js_add :: "real option \<Rightarrow> real option \<Rightarrow> real option" where
  "js_add a b = (case (a, b) of (Some x, Some y) \<Rightarrow> fl (x + y) | _ \<Rightarrow> None)"

definition js_mul :: "real option \<Rightarrow> real option \<Rightarrow> real option" where
  "js_mul a b = (case (a, b) of (Some x, Some y) \<Rightarrow> fl (x * y) | _ \<Rightarrow> None)"

definition js_div :: "real option \<Rightarrow> real option \<Rightarrow> real option" where
  "js_div a b =
     (case (a, b) of
        (Some x, Some y) \<Rightarrow> if y = 0 then None else fl (x / y)
      | _ \<Rightarrow> None)"

text \<open>
  \<open>Math.round\<close> returns the integer nearest to a finite double, a tie towards
  plus infinity; that integer is a double, so nothing is rounded twice.
\<close>

definition Math_round :: "real \<Rightarrow> real" where
  "Math_round v = real_of_int \<lfloor>v + 1 / 2\<rfloor>"

text \<open>
  \<open>Math.min(...vs)\<close> and \<open>Math.max(...vs)\<close> select one of their arguments.
  \<open>getStats\<close> calls them on a non-empty array only.
\<close>

definition Math_min :: "real list \<Rightarrow> real" where
  "Math_min vs = foldl min (hd vs) (tl vs)"

definition Math_max :: "real list \<Rightarrow> real" where
  "Math_max vs = foldl max (hd vs) (tl vs)"

text \<open>
  The two averages of \<open>getStats\<close> are results of arithmetic, hence a finite
  double or not finite; the other fields are samples' values and counts.
\<close>

record Stats =
  avgPing :: "real option"
  minPing :: real
  maxPing :: real
  avgLoss :: "real option"
  maxLoss :: real
  dataPoints :: nat
  totalPoints :: nat

definition getStats :: "'a NetworkData_scheme list \<Rightarrow> metric \<Rightarrow> Stats option" where
  "getStats data type =
     (let validData = filter (\<lambda>item.
            let pingv = (if type = cloudflare then ping item else ping_dev item)
            in pingv \<noteq> -1) data
      in if length validData = 0 then None
         else
           let pings = map (\<lambda>item. if type = cloudflare then ping item else ping_dev item)
                         validData;
               losses = map (\<lambda>item. if type = cloudflare then loss item else loss_dev item)
                          validData
           in Some \<lparr>avgPing = map_option Math_round
                                (js_div (foldl js_add (Some 0) (map Some pings))
                                        (Some (real (length pings)))),
                    minPing = Math_min pings,
                    maxPing = Math_max pings,
                    avgLoss = js_div
                                (map_option Math_round
                                   (js_mul
                                      (js_div (foldl js_add (Some 0) (map Some losses))
                                              (Some (real (length losses))))
                                      (Some 100)))
                                (Some 100),
                    maxLoss = Math_max losses,
                    dataPoints = length validData,
                    totalPoints = length data\<rparr>)"

subsection \<open>Fetching the sample series\<close>

text \<open>
  The two messages the page shows: \<open>NetworkDataError\<close> is the text set by
  \<open>fetchNetworkData\<close> (in English: cannot retrieve network data),
  \<open>ISPListError\<close> the one set by \<open>fetchISPList\<close>; \<open>NoError\<close> is the empty string.
\<close>

datatype error_message = NoError | NetworkDataError | ISPListError

text \<open>
  The decoded response body, as far as the handlers look at it: a bare array of
  samples, or an object whose \<open>data\<close> and \<open>now\<close> fields may each be absent.
\<close>

datatype response_body =
    JArray "NetworkData list"
  | JObject "NetworkData list option" "int option"

text \<open>
  What \<open>await fetch(...)\<close> and \<open>await response.json()\<close> deliver: the request is
  rejected, or a response arrives with its \<open>ok\<close> flag and a body that decodes
  or not.
\<close>

datatype fetch_outcome =
    NetworkFailure
  | Response bool "response_body option"

record PageState =
  selectedISP :: string
  selectedRange :: int
  networkData :: "FormattedData list"
  loading :: bool
  error :: error_message

record PageState_v2 = PageState +
  autoRefresh :: bool
  lastUpdated :: "int option option"
  serverNow :: "int option"

definition formatData :: "NetworkData list \<Rightarrow> FormattedData list" where
  "formatData items =
     map (\<lambda>(index, item).
            \<lparr>ping = ping item, loss = loss item, ping_dev = ping_dev item,
             loss_dev = loss_dev item, time = index + 1\<rparr>)
         (enumerate 0 items)"

text \<open>
  The body of the \<open>try\<close> block of the earlier revision: \<open>None\<close> when it throws
  (the request fails, \<open>response.ok\<close> is false, the body does not decode, or the
  body has no \<open>map\<close> method because it is not an array).
\<close>

definition try_v1 :: "fetch_outcome \<Rightarrow> FormattedData list option" where
  "try_v1 outcome =
     (case outcome of
        NetworkFailure \<Rightarrow> None
      | Response ok body \<Rightarrow>
          if \<not> ok then None
          else (case body of
                  None \<Rightarrow> None
                | Some (JArray items) \<Rightarrow> Some (formatData items)
                | Some (JObject d n) \<Rightarrow> None))"

definition fetchNetworkData_v1 :: "PageState \<Rightarrow> fetch_outcome \<Rightarrow> PageState" where
  "fetchNetworkData_v1 st outcome =
     (if selectedISP st = [] then st
      else
        let st1 = st\<lparr>loading := True, error := NoError\<rparr>;
            st2 = (case try_v1 outcome of
                     Some formattedData \<Rightarrow> st1\<lparr>networkData := formattedData\<rparr>
                   | None \<Rightarrow> st1\<lparr>error := NetworkDataError, networkData := []\<rparr>)
        in st2\<lparr>loading := False\<rparr>)"

text \<open>
  The \<open>try\<close> block of the later revision reads \<open>responseData.data.map\<close>: it
  throws when the body is an array or an object without \<open>data\<close>.
\<close>

definition try_v2 :: "fetch_outcome \<Rightarrow> (FormattedData list \<times> int option) option" where
  "try_v2 outcome =
     (case outcome of
        NetworkFailure \<Rightarrow> None
      | Response ok body \<Rightarrow>
          if \<not> ok then None
          else (case body of
                  None \<Rightarrow> None
                | Some (JArray items) \<Rightarrow> None
                | Some (JObject None n) \<Rightarrow> None
                | Some (JObject (Some items) n) \<Rightarrow> Some (formatData items, n)))"

text \<open>
  \<open>lastUpdated\<close> is \<open>null\<close> (\<open>None\<close>) or a \<open>Date\<close>; \<open>new Date(undefined)\<close> is
  the invalid date (\<open>Some None\<close>).
\<close>

definition fetchNetworkData_v2 :: "PageState_v2 \<Rightarrow> fetch_outcome \<Rightarrow> PageState_v2" where
  "fetchNetworkData_v2 st outcome =
     (if selectedISP st = [] then st
      else
        let st1 = st\<lparr>loading := True, error := NoError\<rparr>;
            st2 = (case try_v2 outcome of
                     Some (formattedData, n) \<Rightarrow>
                       st1\<lparr>networkData := formattedData, lastUpdated := Some n,
                           serverNow := n\<rparr>
                   | None \<Rightarrow> st1\<lparr>error := NetworkDataError, networkData := []\<rparr>)
        in st2\<lparr>loading := False\<rparr>)"

subsection \<open>The metric a chart shows\<close>

text \<open>
  The statements below speak of the selected value and the selected loss of a
  sample: \<open>ping\<close> and \<open>loss\<close> for the first chart, \<open>ping_dev\<close> and \<open>loss_dev\<close>
  for the second.
\<close>

fun metricValue :: "metric \<Rightarrow> 'a NetworkData_scheme \<Rightarrow> real" where
  "metricValue cloudflare d = ping d"
| "metricValue origin d = ping_dev d"

fun metricLoss :: "metric \<Rightarrow> 'a NetworkData_scheme \<Rightarrow> real" where
  "metricLoss cloudflare d = loss d"
| "metricLoss origin d = loss_dev d"

text \<open>
  The valid values of a sample sequence are the selected values other than the
  sentinel minus one; the corresponding losses are the selected losses of the
  samples whose selected value is valid.
\<close>

definition validValues :: "metric \<Rightarrow> 'a NetworkData_scheme list \<Rightarrow> real list" where
  "validValues t data = filter (\<lambda>v. v \<noteq> -1) (map (metricValue t) data)"

definition validLosses :: "metric \<Rightarrow> 'a NetworkData_scheme list \<Rightarrow> real list" where
  "validLosses t data = map (metricLoss t) (filter (\<lambda>d. metricValue t d \<noteq> -1) data)"

text \<open>
  The mean as the code computes it: the running sum in double arithmetic,
  starting from zero, divided by the count.
\<close>

definition js_mean :: "real list \<Rightarrow> real option" where
  "js_mean vs = js_div (foldl js_add (Some 0) (map Some vs)) (Some (real (length vs)))"

subsection \<open>Sample inputs\<close>

text \<open>Samples used where a statement is evaluated on a concrete input.\<close>

definition sample_a :: NetworkData where
  "sample_a = \<lparr>ping = 10, loss = 0, ping_dev = 20, loss_dev = 5\<rparr>"

definition sample_b :: NetworkData where
  "sample_b = \<lparr>ping = -1, loss = 50, ping_dev = 31, loss_dev = -1\<rparr>"

definition sample_c :: NetworkData where
  "sample_c = \<lparr>ping = 15, loss = -1, ping_dev = -1, loss_dev = 2\<rparr>"


text \<open>
  Page states that hold samples of an earlier fetch, one for each revision.
\<close>

definition state_v1 :: PageState where
  "state_v1 = \<lparr>selectedISP = ''ISP A'', selectedRange = 60,
               networkData = formatData [sample_a, sample_b], loading = False,
               error = NoError\<rparr>"

definition state_v2 :: PageState_v2 where
  "state_v2 = \<lparr>selectedISP = ''ISP A'', selectedRange = 5,
               networkData = formatData [sample_a, sample_b], loading = False,
               error = NoError, autoRefresh = True, lastUpdated = None,
               serverNow = Some 1700000000000\<rparr>"

section \<open>Properties\<close>

lemma length_getAllTimePoints_v1:
  "length (getAllTimePoints_v1 clock r) = nat (snd (cadence r))"
  by (simp add: getAllTimePoints_v1_def Let_def split: prod.splits)

lemma length_getAllTimePoints_v2:
  "length (getAllTimePoints_v2 clock r now) = nat (snd (cadence r))"
  by (simp add: getAllTimePoints_v2_def Let_def split: prod.splits)

subsection \<open>Bucket count\<close>

lemma snd_cadence:
  "snd (cadence r) =
     (if r \<le> 60 then r * 2 else if r \<le> 1440 then r else \<lceil>real_of_int r / 60\<rceil>)"
  by (simp add: cadence_def)

lemma fst_cadence:
  "fst (cadence r) = (if r \<le> 60 then 30000 else if r \<le> 1440 then 60000 else 3600000)"
  by (simp add: cadence_def)

lemma getAllTimePoints_v1_nth:
  "i < nat (snd (cadence r)) \<Longrightarrow>
   getAllTimePoints_v1 clock r ! i = clock - (snd (cadence r) - 1 - int i) * fst (cadence r)"
  by (auto simp add: getAllTimePoints_v1_def Let_def split: prod.splits)

lemma getAllTimePoints_v2_eq_v1:
  "getAllTimePoints_v2 clock r now = getAllTimePoints_v1 (currentTime clock now) r"
  by (simp add: getAllTimePoints_v1_def getAllTimePoints_v2_def Let_def algebra_simps
      split: prod.splits)

lemma getAllTimePoints_v1_step:
  assumes "Suc i < length (getAllTimePoints_v1 clock r)"
  shows "getAllTimePoints_v1 clock r ! Suc i - getAllTimePoints_v1 clock r ! i = fst (cadence r)"
proof -
  from assms have "Suc i < nat (snd (cadence r))" by (simp add: length_getAllTimePoints_v1)
  then show ?thesis
    by (simp add: getAllTimePoints_v1_nth algebra_simps)
qed

lemma getAllTimePoints_v1_last:
  assumes "0 < r"
  shows "last (getAllTimePoints_v1 clock r) = clock"
proof -
  let ?n = "nat (snd (cadence r))"
  from assms have pos: "0 < ?n" by (simp add: snd_cadence)
  then have ne: "getAllTimePoints_v1 clock r \<noteq> []"
    using length_getAllTimePoints_v1 [of clock r] by auto
  have "last (getAllTimePoints_v1 clock r) = getAllTimePoints_v1 clock r ! (?n - 1)"
    using ne by (simp add: last_conv_nth length_getAllTimePoints_v1)
  also have "\<dots> = clock"
    using pos by (simp add: getAllTimePoints_v1_nth)
  finally show ?thesis .
qed

lemma fst_cadence_pos: "0 < fst (cadence r)"
  by (simp add: fst_cadence)

lemma getAllTimePoints_v1_increasing: "sorted_wrt (<) (getAllTimePoints_v1 clock r)"
proof -
  have "i < j \<Longrightarrow> j < length (getAllTimePoints_v1 clock r) \<Longrightarrow>
        getAllTimePoints_v1 clock r ! i < getAllTimePoints_v1 clock r ! j" for i j
    using fst_cadence_pos [of r]
    by (simp add: length_getAllTimePoints_v1 getAllTimePoints_v1_nth)
  then show ?thesis by (simp add: sorted_wrt_iff_nth_less)
qed

lemma getAllTimePoints_v2_step:
  assumes "Suc i < length (getAllTimePoints_v2 clock r now)"
  shows "getAllTimePoints_v2 clock r now ! Suc i - getAllTimePoints_v2 clock r now ! i
           = fst (cadence r)"
  using assms unfolding getAllTimePoints_v2_eq_v1 by (rule getAllTimePoints_v1_step)

text \<open>
  C1. For every range of the enumerated set and every current time, both
  revisions of the timeline generator return as many buckets as the cadence
  policy dictates, spaced by the policy's width: twice the range, 30 seconds
  apart, up to 60 minutes; the range itself, 60 seconds apart, up to 1440
  minutes; and the range divided by 60, rounded up, 3600 seconds apart, beyond
  that.
\<close>

theorem getAllTimePoints_bucket_count:
  assumes "r \<in> set TIME_RANGES"
  shows "length (getAllTimePoints_v1 clock r) =
           nat (if r \<le> 60 then r * 2 else if r \<le> 1440 then r
                else \<lceil>real_of_int r / 60\<rceil>)
       \<and> length (getAllTimePoints_v2 clock r now) =
           nat (if r \<le> 60 then r * 2 else if r \<le> 1440 then r
                else \<lceil>real_of_int r / 60\<rceil>)
       \<and> (\<forall>i. Suc i < length (getAllTimePoints_v1 clock r) \<longrightarrow>
             getAllTimePoints_v1 clock r ! Suc i - getAllTimePoints_v1 clock r ! i
               = (if r \<le> 60 then 30 * 1000 else if r \<le> 1440 then 60 * 1000
                  else 3600 * 1000))
       \<and> (\<forall>i. Suc i < length (getAllTimePoints_v2 clock r now) \<longrightarrow>
             getAllTimePoints_v2 clock r now ! Suc i - getAllTimePoints_v2 clock r now ! i
               = (if r \<le> 60 then 30 * 1000 else if r \<le> 1440 then 60 * 1000
                  else 3600 * 1000))"
proof -
  have w: "fst (cadence r)
             = (if r \<le> 60 then 30 * 1000 else if r \<le> 1440 then 60 * 1000 else 3600 * 1000)"
    by (simp add: fst_cadence)
  have n: "nat (snd (cadence r))
             = nat (if r \<le> 60 then r * 2 else if r \<le> 1440 then r
                    else \<lceil>real_of_int r / 60\<rceil>)"
    by (simp only: snd_cadence)
  show ?thesis
    unfolding w [symmetric] n [symmetric]
    by (simp add: length_getAllTimePoints_v1 length_getAllTimePoints_v2
        getAllTimePoints_v1_step getAllTimePoints_v2_step)
qed

theorem getAllTimePoints_bucket_count_witness:
  "(60::int) \<in> set TIME_RANGES \<and> length (getAllTimePoints_v1 1700000000000 60) = 120
   \<and> length (getAllTimePoints_v2 1700000000000 60 (Some 1700000000123)) = 120
   \<and> getAllTimePoints_v2 1700000000000 60 (Some 1700000000123) ! Suc 0
       - getAllTimePoints_v2 1700000000000 60 (Some 1700000000123) ! 0 = 30000"
proof -
  have m: "(60::int) \<in> set TIME_RANGES"
    by (simp add: TIME_RANGES_def)
  note t = getAllTimePoints_bucket_count [OF m, of 1700000000000 "Some 1700000000123"]
  from t have l1: "length (getAllTimePoints_v1 1700000000000 60) = 120"
    by simp
  from t have l2: "length (getAllTimePoints_v2 1700000000000 60 (Some 1700000000123)) = 120"
    by simp
  from t have "Suc 0 < length (getAllTimePoints_v2 1700000000000 60 (Some 1700000000123))
      \<longrightarrow> getAllTimePoints_v2 1700000000000 60 (Some 1700000000123) ! Suc 0
            - getAllTimePoints_v2 1700000000000 60 (Some 1700000000123) ! 0
          = (if (60::int) \<le> 60 then 30 * 1000 else if (60::int) \<le> 1440 then 60 * 1000
             else 3600 * 1000)"
    by blast
  then have d: "getAllTimePoints_v2 1700000000000 60 (Some 1700000000123) ! Suc 0
       - getAllTimePoints_v2 1700000000000 60 (Some 1700000000123) ! 0 = 30000"
    by (simp add: l2)
  from m l1 l2 d show ?thesis by blast
qed

text \<open>
  The policy is not particular to the enumerated ranges: it holds of every
  integer range, the hourly cadence above 1440 minutes included.
\<close>

lemma bucket_count_any_range:
  "length (getAllTimePoints_v1 clock r) =
     nat (if r \<le> 60 then r * 2 else if r \<le> 1440 then r else \<lceil>real_of_int r / 60\<rceil>)
   \<and> length (getAllTimePoints_v2 clock r now) =
     nat (if r \<le> 60 then r * 2 else if r \<le> 1440 then r else \<lceil>real_of_int r / 60\<rceil>)"
  unfolding length_getAllTimePoints_v1 length_getAllTimePoints_v2 snd_cadence by simp

lemma bucket_count_hourly: "length (getAllTimePoints_v2 clock 1500 now) = 25"
  by (simp add: length_getAllTimePoints_v2 snd_cadence)

subsection \<open>Severity bands\<close>

text \<open>
  C3. The classifier is a total function of the loss with bands closed above:
  minus one is the no-data grey; any other loss up to 0 is the healthy green;
  above 0 and up to 33 the minor blue; above 33 and up to 66 the major red;
  above 66 the severe purple.
\<close>

theorem getColorByLoss_bands:
  "getColorByLoss (-1) = ''#9CA3AF''
   \<and> (\<forall>l. l \<le> 0 \<and> l \<noteq> -1 \<longrightarrow> getColorByLoss l = ''#10B981'')
   \<and> (\<forall>l. 0 < l \<and> l \<le> 33 \<longrightarrow> getColorByLoss l = ''#3B82F6'')
   \<and> (\<forall>l. 33 < l \<and> l \<le> 66 \<longrightarrow> getColorByLoss l = ''#EF4444'')
   \<and> (\<forall>l. 66 < l \<longrightarrow> getColorByLoss l = ''#8B5CF6'')"
  by (simp add: getColorByLoss_def)

text \<open>The boundary values 0, 33, 66, 67 and the fractional 66.5.\<close>

theorem getColorByLoss_bands_witness:
  "getColorByLoss 0 = ''#10B981'' \<and> getColorByLoss 33 = ''#3B82F6''
   \<and> getColorByLoss 66 = ''#EF4444'' \<and> getColorByLoss 67 = ''#8B5CF6''
   \<and> getColorByLoss 66.5 = ''#8B5CF6''"
proof -
  from getColorByLoss_bands have
    healthy: "\<And>l. l \<le> 0 \<and> l \<noteq> -1 \<Longrightarrow> getColorByLoss l = ''#10B981''" and
    minor: "\<And>l. 0 < l \<and> l \<le> 33 \<Longrightarrow> getColorByLoss l = ''#3B82F6''" and
    major: "\<And>l. 33 < l \<and> l \<le> 66 \<Longrightarrow> getColorByLoss l = ''#EF4444''" and
    severe: "\<And>l. 66 < l \<Longrightarrow> getColorByLoss l = ''#8B5CF6''"
    by blast+
  show ?thesis
    using healthy [of 0] minor [of 33] major [of 66] severe [of 67] severe [of "66.5"]
    by simp
qed

subsection \<open>Backward and forward generation of the timestamps\<close>

text \<open>
  C4. The earlier revision steps backward from the current time, the later one
  forward from an anchor \<open>(count - 1) * width\<close> before it. For every range and
  every current time both give the same sequence: bucket \<open>i\<close> lies
  \<open>(count - 1 - i) * width\<close> before the current time, which is \<open>i * width\<close>
  after the anchor; neighbours are one bucket width apart, the oldest bucket
  comes first, and for a positive range the last bucket is the current time.
  The current time of the later revision is \<open>now || Date.now()\<close>.
\<close>

theorem getAllTimePoints_backward_forward:
  "getAllTimePoints_v2 clock r now = getAllTimePoints_v1 (currentTime clock now) r
   \<and> (\<forall>i. i < length (getAllTimePoints_v2 clock r now) \<longrightarrow>
         getAllTimePoints_v2 clock r now ! i
           = currentTime clock now
               - (int (length (getAllTimePoints_v2 clock r now)) - 1 - int i)
                 * fst (cadence r)
       \<and> getAllTimePoints_v2 clock r now ! i
           = (currentTime clock now
               - (int (length (getAllTimePoints_v2 clock r now)) - 1) * fst (cadence r))
             + int i * fst (cadence r))
   \<and> (\<forall>i. Suc i < length (getAllTimePoints_v2 clock r now) \<longrightarrow>
         getAllTimePoints_v2 clock r now ! Suc i - getAllTimePoints_v2 clock r now ! i
           = (if r \<le> 60 then 30000 else if r \<le> 1440 then 60000 else 3600000))
   \<and> sorted_wrt (<) (getAllTimePoints_v2 clock r now)
   \<and> (0 < r \<longrightarrow> last (getAllTimePoints_v2 clock r now) = currentTime clock now)"
  unfolding getAllTimePoints_v2_eq_v1
  using getAllTimePoints_v1_step [of _ "currentTime clock now" r]
    getAllTimePoints_v1_last [of r "currentTime clock now"]
    getAllTimePoints_v1_increasing [of "currentTime clock now" r]
  by (auto simp add: fst_cadence length_getAllTimePoints_v1 getAllTimePoints_v1_nth
      algebra_simps)

theorem getAllTimePoints_backward_forward_witness:
  "getAllTimePoints_v2 1700000000000 5 (Some 1700000000123)
     = getAllTimePoints_v1 1700000000123 5
   \<and> getAllTimePoints_v2 1700000000000 5 (Some 1700000000123) ! 0 = 1699999730123
   \<and> getAllTimePoints_v2 1700000000000 5 (Some 1700000000123) ! Suc 0
       - getAllTimePoints_v2 1700000000000 5 (Some 1700000000123) ! 0 = 30000
   \<and> last (getAllTimePoints_v2 1700000000000 5 (Some 1700000000123)) = 1700000000123"
proof -
  let ?ts = "getAllTimePoints_v2 1700000000000 5 (Some 1700000000123)"
  let ?ct = "currentTime 1700000000000 (Some 1700000000123)"
  note t = getAllTimePoints_backward_forward [of 1700000000000 5 "Some 1700000000123"]
  have len: "length ?ts = 10"
    by (simp add: length_getAllTimePoints_v2 snd_cadence)
  have ct: "?ct = 1700000000123"
    by (simp add: currentTime_def)
  from t have "?ts = getAllTimePoints_v1 ?ct 5"
    by (rule conjunct1)
  then have eq: "?ts = getAllTimePoints_v1 1700000000123 5"
    by (simp only: ct)
  from t have nth: "\<And>i. i < length ?ts \<Longrightarrow>
      ?ts ! i = ?ct - (int (length ?ts) - 1 - int i) * fst (cadence 5)"
    by blast
  have first: "?ts ! 0 = 1699999730123"
    using nth [of 0] by (simp add: len ct fst_cadence)
  from t have diff: "\<And>i. Suc i < length ?ts \<Longrightarrow>
      ?ts ! Suc i - ?ts ! i = (if (5::int) \<le> 60 then 30000 else if (5::int) \<le> 1440 then 60000 else 3600000)"
    by blast
  have step: "?ts ! Suc 0 - ?ts ! 0 = 30000"
    using diff [of 0] by (simp add: len)
  from t have "(0::int) < 5 \<longrightarrow> last ?ts = ?ct"
    by blast
  then have lst: "last ?ts = 1700000000123"
    by (simp add: ct)
  from eq first step lst show ?thesis by blast
qed

subsection \<open>Reindexing samples onto the timeline\<close>

lemma length_prepareScatterData_v1:
  "length (prepareScatterData_v1 clock r data t) = nat (snd (cadence r))"
  by (simp add: prepareScatterData_v1_def length_getAllTimePoints_v1)

lemma length_prepareScatterData_v2:
  "length (prepareScatterData_v2 clock r now data t) = nat (snd (cadence r))"
  by (simp add: prepareScatterData_v2_def length_getAllTimePoints_v2)

lemma nth_prepareScatterData_v1:
  "i < nat (snd (cadence r)) \<Longrightarrow>
   prepareScatterData_v1 clock r data t ! i
     = scatterPoint r data t (getAllTimePoints_v1 clock r ! i) i"
  by (simp add: prepareScatterData_v1_def length_getAllTimePoints_v1 nth_enumerate_eq)

lemma nth_prepareScatterData_v2:
  "i < nat (snd (cadence r)) \<Longrightarrow>
   prepareScatterData_v2 clock r now data t ! i
     = scatterPoint r data t (getAllTimePoints_v2 clock r now ! i) i"
  by (simp add: prepareScatterData_v2_def length_getAllTimePoints_v2 nth_enumerate_eq)

lemma metricValue_if:
  "metricValue t d = (if t = cloudflare then ping d else ping_dev d)"
  by (cases t) simp_all

lemma metricLoss_if:
  "metricLoss t d = (if t = cloudflare then loss d else loss_dev d)"
  by (cases t) simp_all

lemma scatterPoint_valid:
  assumes "i < length data" "metricValue t (data ! i) \<noteq> -1"
  shows "pt_y (scatterPoint r data t tp i) = Some (metricValue t (data ! i))"
    and "pt_loss (scatterPoint r data t tp i) = metricLoss t (data ! i)"
    and "pt_hasData (scatterPoint r data t tp i)"
    and "pt_color (scatterPoint r data t tp i) = getColorByLoss (metricLoss t (data ! i))"
    and "pt_x (scatterPoint r data t tp i) = tp"
  using assms by (simp_all add: scatterPoint_def at_index_def Let_def metricValue_if metricLoss_if)

lemma scatterPoint_missing:
  assumes "length data \<le> i"
  shows "pt_y (scatterPoint r data t tp i) = None"
    and "pt_loss (scatterPoint r data t tp i) = -1"
    and "\<not> pt_hasData (scatterPoint r data t tp i)"
    and "pt_color (scatterPoint r data t tp i) = ''rgba(156, 163, 175, 0.3)''"
  using assms by (simp_all add: scatterPoint_def at_index_def Let_def)

lemma scatterPoint_sentinel:
  assumes "i < length data" "metricValue t (data ! i) = -1"
  shows "pt_y (scatterPoint r data t tp i) = None"
    and "\<not> pt_hasData (scatterPoint r data t tp i)"
    and "pt_color (scatterPoint r data t tp i) = ''rgba(156, 163, 175, 0.3)''"
    and "pt_loss (scatterPoint r data t tp i) = metricLoss t (data ! i)"
  using assms by (simp_all add: scatterPoint_def at_index_def Let_def metricValue_if metricLoss_if)

text \<open>
  C5. Whatever the sample sequence (empty, shorter than, as long as or longer
  than the timeline), \<open>prepareScatterData\<close> returns one point per bucket of the
  selected range: the count of the cadence policy, which is the length of the
  timeline.
\<close>

theorem prepareScatterData_length:
  assumes "r \<in> set TIME_RANGES"
  shows "length (prepareScatterData_v1 clock r data t)
           = nat (if r \<le> 60 then r * 2 else if r \<le> 1440 then r
                  else \<lceil>real_of_int r / 60\<rceil>)
       \<and> length (prepareScatterData_v2 clock r now data t)
           = nat (if r \<le> 60 then r * 2 else if r \<le> 1440 then r
                  else \<lceil>real_of_int r / 60\<rceil>)
       \<and> length (prepareScatterData_v1 clock r data t) = length (getAllTimePoints_v1 clock r)
       \<and> length (prepareScatterData_v2 clock r now data t)
           = length (getAllTimePoints_v2 clock r now)"
  by (simp add: length_prepareScatterData_v1 length_prepareScatterData_v2
      length_getAllTimePoints_v1 length_getAllTimePoints_v2 snd_cadence)

theorem prepareScatterData_length_witness:
  "(60::int) \<in> set TIME_RANGES
   \<and> length (prepareScatterData_v1 1700000000000 60 ([] :: NetworkData list) cloudflare) = 120
   \<and> length (prepareScatterData_v2 1700000000000 60 (Some 1700000000123)
               ([] :: NetworkData list) cloudflare) = 120"
  using prepareScatterData_length
    [of 60 1700000000000 "[] :: NetworkData list" cloudflare "Some 1700000000123"]
  by (simp add: TIME_RANGES_def)

text \<open>A sequence longer than the timeline is cut; an empty one gives empty points.\<close>

lemma prepareScatterData_longer_input:
  "length (prepareScatterData_v2 clock 5 now
      (replicate 11 \<lparr>ping = 10, loss = 0, ping_dev = 20, loss_dev = 0\<rparr>) t) = 10"
  by (simp add: length_prepareScatterData_v2 snd_cadence)

lemma prepareScatterData_empty_input:
  "p \<in> set (prepareScatterData_v2 clock r now [] t) \<Longrightarrow> \<not> pt_hasData p \<and> pt_y p = None"
  by (auto simp add: prepareScatterData_v2_def scatterPoint_def at_index_def Let_def)

text \<open>
  C2. Samples are aligned by position. At a bucket index \<open>i\<close>: a sample at
  index \<open>i\<close> whose selected value is not minus one gives a point with that value
  and that loss and with \<open>hasData\<close>; no sample at index \<open>i\<close> gives the value
  \<open>null\<close>, no \<open>hasData\<close> and the loss minus one; a sample whose selected value
  is minus one gives the value \<open>null\<close>, no \<open>hasData\<close> and the translucent grey.
  The point's \<open>x\<close> is the timestamp of bucket \<open>i\<close>. This holds of both revisions.
\<close>

theorem prepareScatterData_by_position:
  assumes "i < length (prepareScatterData_v1 clock r data t)"
  shows "(\<forall>p \<in> {prepareScatterData_v1 clock r data t ! i,
                 prepareScatterData_v2 clock r now data t ! i}.
           (i < length data \<and> metricValue t (data ! i) \<noteq> -1 \<longrightarrow>
              pt_y p = Some (metricValue t (data ! i))
              \<and> pt_loss p = metricLoss t (data ! i) \<and> pt_hasData p)
         \<and> (length data \<le> i \<longrightarrow>
              pt_y p = None \<and> \<not> pt_hasData p \<and> pt_loss p = -1)
         \<and> (i < length data \<and> metricValue t (data ! i) = -1 \<longrightarrow>
              pt_y p = None \<and> \<not> pt_hasData p
              \<and> pt_color p = ''rgba(156, 163, 175, 0.3)''))
       \<and> pt_x (prepareScatterData_v1 clock r data t ! i) = getAllTimePoints_v1 clock r ! i
       \<and> pt_x (prepareScatterData_v2 clock r now data t ! i)
           = getAllTimePoints_v2 clock r now ! i"
proof -
  from assms have i: "i < nat (snd (cadence r))"
    by (simp add: length_prepareScatterData_v1)
  have x: "pt_x (scatterPoint r data t tp i) = tp" for tp
    by (simp add: scatterPoint_def Let_def)
  show ?thesis
    using i scatterPoint_valid [of i data t r] scatterPoint_missing [of data i r t]
      scatterPoint_sentinel [of i data t r]
    by (simp add: nth_prepareScatterData_v1 nth_prepareScatterData_v2 x)
qed

theorem prepareScatterData_by_position_witness:
  "pt_y (prepareScatterData_v2 1700000000000 5 (Some 1700000000123)
           [sample_a, sample_b] cloudflare ! 0) = Some 10
   \<and> pt_loss (prepareScatterData_v2 1700000000000 5 (Some 1700000000123)
           [sample_a, sample_b] cloudflare ! 0) = 0
   \<and> pt_hasData (prepareScatterData_v2 1700000000000 5 (Some 1700000000123)
           [sample_a, sample_b] cloudflare ! 0)
   \<and> pt_y (prepareScatterData_v2 1700000000000 5 (Some 1700000000123)
           [sample_a, sample_b] cloudflare ! 1) = None
   \<and> pt_color (prepareScatterData_v2 1700000000000 5 (Some 1700000000123)
           [sample_a, sample_b] cloudflare ! 1) = ''rgba(156, 163, 175, 0.3)''
   \<and> pt_y (prepareScatterData_v2 1700000000000 5 (Some 1700000000123)
           [sample_a, sample_b] cloudflare ! 2) = None
   \<and> pt_loss (prepareScatterData_v2 1700000000000 5 (Some 1700000000123)
           [sample_a, sample_b] cloudflare ! 2) = -1"
proof -
  let ?P = "prepareScatterData_v2 1700000000000 5 (Some 1700000000123)
              [sample_a, sample_b] cloudflare"
  have len: "length (prepareScatterData_v1 1700000000000 5 [sample_a, sample_b] cloudflare) = 10"
    by (simp add: length_prepareScatterData_v1 snd_cadence)
  note t = prepareScatterData_by_position
    [of _ 1700000000000 5 "[sample_a, sample_b]" cloudflare "Some 1700000000123",
     unfolded len]
  show ?thesis
    using t [of 0] t [of 1] t [of 2]
    by (simp add: sample_a_def sample_b_def)
qed

subsection \<open>Double arithmetic\<close>

text \<open>
  Unfolding rules that let the simplifier round a concrete number, and the
  exactness of the arithmetic on integers up to \<open>2 ^ 53\<close> in magnitude.
\<close>

lemma expo_up_unfold:
  "expo_up n x = (if n = 0 then 0 else if 2 \<le> x then 1 + expo_up (n - 1) (x / 2) else 0)"
  by (cases n) simp_all

lemma expo_down_unfold:
  "expo_down n x = (if n = 0 then 0 else if x < 1 then expo_down (n - 1) (x * 2) - 1 else 0)"
  by (cases n) simp_all

lemmas fl_eval =
  fl_def expo_def expo_up_unfold expo_down_unfold pow2_def round_even_def Let_def

lemma round_even_of_int: "round_even (of_int j) = j"
  by (simp add: round_even_def)

lemma expo_up_bounds:
  "1 \<le> x \<Longrightarrow> x < 2 ^ n \<Longrightarrow>
   0 \<le> expo_up n x \<and> 2 ^ nat (expo_up n x) \<le> x \<and> x < 2 * 2 ^ nat (expo_up n x)"
proof (induction n arbitrary: x)
  case 0
  then show ?case by simp
next
  case (Suc n)
  show ?case
  proof (cases "2 \<le> x")
    case True
    with Suc.prems have "1 \<le> x / 2" "x / 2 < 2 ^ n" by simp_all
    from Suc.IH [OF this] True show ?thesis
      by (simp add: nat_add_distrib)
  next
    case False
    with Suc.prems show ?thesis by simp
  qed
qed

lemma pow2_pos: "0 < pow2 e"
  by (simp add: pow2_def)

lemma fl_exact:
  assumes "x / pow2 (expo x - 52) = of_int j" and "\<bar>x\<bar> < 2 ^ 1024"
  shows "fl x = Some x"
proof (cases "x = 0")
  case True
  then show ?thesis by (simp add: fl_def)
next
  case False
  let ?u = "pow2 (expo x - 52)"
  have u: "?u \<noteq> 0" using pow2_pos [of "expo x - 52"] by simp
  have "real_of_int (round_even (x / ?u)) * ?u = x / ?u * ?u"
    by (simp only: assms(1) round_even_of_int)
  also have "\<dots> = x" using u by simp
  finally have "real_of_int (round_even (x / ?u)) * ?u = x" .
  with False assms(2) show ?thesis
    by (simp add: fl_def Let_def)
qed

lemma fl_int:
  assumes "\<bar>k\<bar> \<le> 2 ^ 53"
  shows "fl (of_int k) = Some (of_int k)"
proof (cases "k = 0")
  case True
  then show ?thesis by (simp add: fl_def)
next
  case False
  let ?x = "real_of_int k"
  have ax: "\<bar>?x\<bar> = of_int \<bar>k\<bar>" by simp
  from False have one: "1 \<le> \<bar>?x\<bar>" by simp
  from assms have le53: "\<bar>?x\<bar> \<le> 2 ^ 53"
    unfolding ax by (metis of_int_le_iff of_int_numeral of_int_power)
  then have lt: "\<bar>?x\<bar> < 2 ^ 1024"
    by (rule order_le_less_trans) simp
  let ?e = "expo_up 1024 \<bar>?x\<bar>"
  have e: "expo ?x = ?e" using one by (simp add: expo_def)
  from expo_up_bounds [OF one lt]
  have e0: "0 \<le> ?e" and lo: "2 ^ nat ?e \<le> \<bar>?x\<bar>" by simp_all
  from lo le53 have "(2::real) ^ nat ?e \<le> 2 ^ 53" by (rule order_trans)
  then have "nat ?e \<le> 53" by (rule power_le_imp_le_exp [rotated]) simp
  with e0 have e53: "?e \<le> 53" by linarith
  show ?thesis
  proof (cases "?e \<le> 52")
    case True
    then have "pow2 (?e - 52) = 1 / 2 ^ nat (52 - ?e)"
      by (cases "?e = 52") (simp_all add: pow2_def)
    then have "?x / pow2 (expo ?x - 52) = of_int (k * 2 ^ nat (52 - ?e))"
      by (simp add: e)
    from fl_exact [OF this lt] show ?thesis .
  next
    case False
    with e53 have e': "?e = 53" by linarith
    with lo have "2 ^ 53 \<le> \<bar>?x\<bar>" by simp
    with le53 have "\<bar>?x\<bar> = 2 ^ 53" by (rule order_antisym)
    then have "of_int \<bar>k\<bar> = (of_int (2 ^ 53) :: real)" unfolding ax by simp
    then have "\<bar>k\<bar> = 2 ^ 53" by (simp only: of_int_eq_iff)
    then have "\<bar>k\<bar> = 9007199254740992" by simp
    then have "k = 2 * (k div 2)" by presburger
    then have "?x = 2 * of_int (k div 2)"
      by (metis of_int_mult of_int_numeral)
    then have half: "?x / 2 = of_int (k div 2)" by simp
    have pw: "pow2 (expo ?x - 52) = 2" by (simp add: e e' pow2_def)
    have "?x / pow2 (expo ?x - 52) = of_int (k div 2)"
      unfolding pw by (rule half)
    from fl_exact [OF this lt] show ?thesis .
  qed
qed

lemma js_add_int:
  "\<bar>a + b\<bar> \<le> 2 ^ 53 \<Longrightarrow>
   js_add (Some (of_int a)) (Some (of_int b)) = Some (of_int (a + b))"
  using fl_int [of "a + b"] by (simp add: js_add_def)

lemma foldl_js_add_int:
  "\<bar>a\<bar> + sum_list (map abs ks) \<le> 2 ^ 53 \<Longrightarrow>
   foldl js_add (Some (of_int a)) (map Some (map of_int ks)) = Some (of_int (a + sum_list ks))"
proof (induction ks arbitrary: a)
  case Nil
  then show ?case by simp
next
  case (Cons k ks)
  have 1: "\<bar>a + k\<bar> \<le> 2 ^ 53" using Cons.prems
    using sum_list_abs [of ks] by simp
  have 2: "\<bar>a + k\<bar> + sum_list (map abs ks) \<le> 2 ^ 53" using Cons.prems by simp
  show ?case
    using Cons.IH [OF 2] by (simp add: js_add_int [OF 1] add.assoc)
qed

subsection \<open>Summary statistics\<close>

lemma foldl_min: "foldl min a vs = Min (insert a (set (vs :: real list)))"
proof (induction vs arbitrary: a)
  case Nil
  show ?case by simp
next
  case (Cons v vs)
  have "insert (min a v) (set vs) \<noteq> {}" by simp
  have "Min (insert (min a v) (set vs)) = Min (insert a (insert v (set vs)))"
    by (cases "set vs = {}") (simp_all add: min.assoc)
  with Cons show ?case by simp
qed

lemma foldl_max: "foldl max a vs = Max (insert a (set (vs :: real list)))"
proof (induction vs arbitrary: a)
  case Nil
  show ?case by simp
next
  case (Cons v vs)
  have "Max (insert (max a v) (set vs)) = Max (insert a (insert v (set vs)))"
    by (cases "set vs = {}") (simp_all add: max.assoc)
  with Cons show ?case by simp
qed

lemma Math_min_Min: "vs \<noteq> [] \<Longrightarrow> Math_min vs = Min (set vs)"
  by (cases vs) (simp_all add: Math_min_def foldl_min)

lemma Math_max_Max: "vs \<noteq> [] \<Longrightarrow> Math_max vs = Max (set vs)"
  by (cases vs) (simp_all add: Math_max_def foldl_max)


lemma Math_round_of_int: "Math_round (of_int k) = of_int k"
  by (simp add: Math_round_def)

lemma validValues_filter:
  "validValues t data = map (metricValue t) (filter (\<lambda>d. metricValue t d \<noteq> -1) data)"
  by (simp add: validValues_def filter_map comp_def)

lemma length_validLosses: "length (validLosses t data) = length (validValues t data)"
  by (simp add: validLosses_def validValues_filter)

lemma getStats_None_iff:
  "(getStats data t = None) = (filter (\<lambda>d. metricValue t d \<noteq> -1) data = [])"
  by (simp add: getStats_def Let_def metricValue_if)

lemma getStats_Some:
  assumes "filter (\<lambda>d. metricValue t d \<noteq> -1) data \<noteq> []"
  shows "getStats data t =
    Some \<lparr>avgPing = map_option Math_round (js_mean (validValues t data)),
          minPing = Math_min (validValues t data),
          maxPing = Math_max (validValues t data),
          avgLoss = js_div (map_option Math_round
                              (js_mul (js_mean (validLosses t data)) (Some 100)))
                           (Some 100),
          maxLoss = Math_max (validLosses t data),
          dataPoints = length (validValues t data),
          totalPoints = length data\<rparr>"
proof -
  have sel: "(\<lambda>item. if t = cloudflare then ping item else ping_dev item) = metricValue t"
    "(\<lambda>item. if t = cloudflare then loss item else loss_dev item) = metricLoss t"
    by (auto simp add: metricValue_if metricLoss_if)
  have filt: "(\<lambda>item. let pingv = (if t = cloudflare then ping item else ping_dev item)
                       in pingv \<noteq> -1) = (\<lambda>d. metricValue t d \<noteq> -1)"
    by (simp add: Let_def metricValue_if)
  from assms show ?thesis
    unfolding getStats_def
    unfolding filt sel
    unfolding Let_def validValues_filter validLosses_def js_mean_def
    by simp
qed

text \<open>
  C6. \<open>getStats\<close> keeps the samples whose selected value is not minus one and
  returns \<open>null\<close> exactly when none is left: on the empty input, on an input of
  sentinels only, and on no other input.
\<close>

theorem getStats_absent:
  "(getStats data t = None) = (filter (\<lambda>d. metricValue t d \<noteq> -1) data = [])
   \<and> getStats ([] :: 'a NetworkData_scheme list) t = None
   \<and> ((\<forall>d \<in> set data. metricValue t d = -1) \<longrightarrow> getStats data t = None)
   \<and> ((\<exists>d \<in> set data. metricValue t d \<noteq> -1) \<longrightarrow> getStats data t \<noteq> None)"
  by (auto simp add: getStats_None_iff filter_empty_conv)

theorem getStats_absent_witness:
  "getStats [sample_b, sample_b] cloudflare = None
   \<and> getStats [sample_b, sample_a] cloudflare \<noteq> None"
proof -
  from getStats_absent [of "[sample_b, sample_b]" cloudflare]
  have "(\<forall>d \<in> set [sample_b, sample_b]. metricValue cloudflare d = -1)
        \<longrightarrow> getStats [sample_b, sample_b] cloudflare = None"
    by blast
  then have a: "getStats [sample_b, sample_b] cloudflare = None"
    by (simp add: sample_b_def)
  from getStats_absent [of "[sample_b, sample_a]" cloudflare]
  have "(\<exists>d \<in> set [sample_b, sample_a]. metricValue cloudflare d \<noteq> -1)
        \<longrightarrow> getStats [sample_b, sample_a] cloudflare \<noteq> None"
    by blast
  then have b: "getStats [sample_b, sample_a] cloudflare \<noteq> None"
    by (simp add: sample_a_def)
  from a b show ?thesis by blast
qed



lemma fl_small_ints:
  "fl (-1) = Some (-1)" "fl (-100) = Some (-100)" "fl 0 = Some 0"
  using fl_int [of "-1"] fl_int [of "-100"] fl_int [of 0] by simp_all

lemma js_sum_ints:
  assumes "sum_list (map abs ks) \<le> 2 ^ 53"
  shows "foldl js_add (Some 0) (map Some (map of_int ks)) = Some (of_int (sum_list ks))"
  using foldl_js_add_int [of 0 ks] assms by simp







lemma js_mean_examples:
  "js_mean [10, 15] = Some (25 / 2)"
  "js_mean [0, -1] = Some (- (1 / 2))"
  "js_mul (Some (- (1 / 2))) (Some 100) = Some (- 50)"
  "js_div (Some (- 50)) (Some 100) = Some (- (1 / 2))"
  by (simp_all add: js_mean_def js_add_def js_div_def js_mul_def fl_eval)

lemma Math_round_examples:
  "Math_round (25 / 2) = 13" "Math_round (- 50) = - 50"
  by (simp_all add: Math_round_def)


lemma validLosses_append:
  "validLosses t (xs @ ys) = validLosses t xs @ validLosses t ys"
  by (simp add: validLosses_def)

lemma validLosses_Cons:
  "validLosses t (d # ys) =
     (if metricValue t d \<noteq> -1 then metricLoss t d # validLosses t ys else validLosses t ys)"
  by (simp add: validLosses_def)

lemma length_validLosses_le: "length (validLosses t data) \<le> length data"
  by (simp add: validLosses_def)

lemma all_sentinel_list:
  "\<forall>v \<in> set vs. v = (-1::real) \<Longrightarrow> vs = map of_int (replicate (length vs) (-1))"
  by (induction vs) simp_all

lemma js_mean_all_sentinel:
  assumes "\<forall>v \<in> set vs. v = (-1::real)" and "vs \<noteq> []" and "length vs < 2 ^ 32"
  shows "js_mean vs = Some (-1)"
proof -
  let ?n = "length vs"
  have vs: "vs = map of_int (replicate ?n (-1))"
    using assms(1) by (rule all_sentinel_list)
  have "int ?n < 2 ^ 32" using assms(3) by (metis of_nat_less_iff of_nat_numeral of_nat_power)
  then have b: "sum_list (map abs (replicate ?n (-1::int))) \<le> 2 ^ 53"
    by (simp add: sum_list_replicate)
  have "foldl js_add (Some 0) (map Some vs)
          = foldl js_add (Some 0) (map Some (map of_int (replicate ?n (-1))))"
    using vs by simp
  also have "\<dots> = Some (of_int (sum_list (replicate ?n (-1))))"
    using b by (rule js_sum_ints)
  also have "\<dots> = Some (- real ?n)"
    by (simp add: sum_list_replicate)
  finally have s: "foldl js_add (Some 0) (map Some vs) = Some (- real ?n)" .
  have n: "real ?n \<noteq> 0" using assms(2) by simp
  then have q: "- real ?n / real ?n = -1" by simp
  show ?thesis
    unfolding js_mean_def s using n by (simp add: js_div_def q fl_small_ints)
qed

lemma avgLoss_of_minus_one:
  "js_div (map_option Math_round (js_mul (Some (-1)) (Some 100))) (Some 100) = Some (-1)"
proof -
  have a: "js_mul (Some (-1)) (Some 100) = Some (-100)"
    by (simp add: js_mul_def fl_small_ints)
  have r: "Math_round (-100) = -100"
    using Math_round_of_int [of "-100"] by simp
  show ?thesis
    unfolding a by (simp add: r js_div_def fl_small_ints)
qed

text \<open>
  C10. Validity is decided by the selected value alone. A sample with a valid
  value and the loss minus one is counted: its minus one is added to the running
  sum of the loss average, it counts in the divisor, and it is a candidate of
  the loss maximum. When every valid sample has the loss minus one (in an array,
  whose length is below \<open>2 ^ 32\<close>), both the average and the maximum are minus
  one.
\<close>

theorem getStats_sentinel_loss_included:
  assumes "metricValue t d \<noteq> -1" and "metricLoss t d = -1"
  shows "\<exists>s. getStats (xs @ d # ys) t = Some s
     \<and> dataPoints s = length (validLosses t xs) + 1 + length (validLosses t ys)
     \<and> avgLoss s =
         js_div
           (map_option Math_round
              (js_mul
                 (js_div
                    (foldl js_add
                       (js_add (foldl js_add (Some 0) (map Some (validLosses t xs)))
                               (Some (-1)))
                       (map Some (validLosses t ys)))
                    (Some (real (length (validLosses t xs) + 1
                                 + length (validLosses t ys)))))
                 (Some 100)))
           (Some 100)
     \<and> maxLoss s = Max (insert (-1) (set (validLosses t xs) \<union> set (validLosses t ys)))
     \<and> (length (xs @ d # ys) < 2 ^ 32
          \<and> (\<forall>e \<in> set (xs @ ys). metricValue t e \<noteq> -1 \<longrightarrow> metricLoss t e = -1)
          \<longrightarrow> avgLoss s = Some (-1) \<and> maxLoss s = -1)"
proof -
  let ?data = "xs @ d # ys"
  let ?lx = "validLosses t xs" and ?ly = "validLosses t ys"
  let ?ls = "validLosses t ?data"
  let ?s = "\<lparr>avgPing = map_option Math_round (js_mean (validValues t ?data)),
            minPing = Math_min (validValues t ?data),
            maxPing = Math_max (validValues t ?data),
            avgLoss = js_div (map_option Math_round (js_mul (js_mean ?ls) (Some 100)))
                             (Some 100),
            maxLoss = Math_max ?ls,
            dataPoints = length (validValues t ?data),
            totalPoints = length ?data\<rparr>"
  have ls: "?ls = ?lx @ (-1) # ?ly"
    using assms by (simp add: validLosses_append validLosses_Cons)
  have f: "filter (\<lambda>d. metricValue t d \<noteq> -1) ?data \<noteq> []"
    using assms by simp
  have g: "getStats ?data t = Some ?s"
    by (rule getStats_Some [OF f])
  have ln: "length ?ls = length ?lx + 1 + length ?ly"
    by (simp add: ls)
  have dp: "dataPoints ?s = length ?lx + 1 + length ?ly"
    using ln by (simp add: length_validLosses)
  have mean: "js_mean ?ls =
      js_div (foldl js_add (js_add (foldl js_add (Some 0) (map Some ?lx)) (Some (-1)))
                (map Some ?ly))
             (Some (real (length ?lx + 1 + length ?ly)))"
    unfolding js_mean_def ln unfolding ls by simp
  have av: "avgLoss ?s =
         js_div
           (map_option Math_round
              (js_mul
                 (js_div
                    (foldl js_add
                       (js_add (foldl js_add (Some 0) (map Some ?lx)) (Some (-1)))
                       (map Some ?ly))
                    (Some (real (length ?lx + 1 + length ?ly))))
                 (Some 100)))
           (Some 100)"
    by (simp only: Stats.select_convs mean)
  have mx: "maxLoss ?s = Max (insert (-1) (set ?lx \<union> set ?ly))"
    by (simp add: ls Math_max_Max Un_commute insert_commute)
  have all: "avgLoss ?s = Some (-1) \<and> maxLoss ?s = -1"
    if b: "length ?data < 2 ^ 32"
      and a: "\<forall>e \<in> set (xs @ ys). metricValue t e \<noteq> -1 \<longrightarrow> metricLoss t e = -1"
  proof -
    from a have lx: "\<forall>v \<in> set ?lx. v = -1" and ly: "\<forall>v \<in> set ?ly. v = -1"
      by (auto simp add: validLosses_def)
    then have "insert (-1) (set ?lx \<union> set ?ly) = {-1}" by auto
    then have "Max (insert (-1) (set ?lx \<union> set ?ly)) = -1"
      by (simp only: Max_singleton)
    with mx have m: "maxLoss ?s = -1" by (simp only:)
    from lx ly have every: "\<forall>v \<in> set ?ls. v = -1"
      unfolding ls by auto
    have ne: "?ls \<noteq> []" unfolding ls by simp
    have "length ?ls \<le> length ?data" by (rule length_validLosses_le)
    from this b have "length ?ls < 2 ^ 32" by (rule order_le_less_trans)
    from js_mean_all_sentinel [OF every ne this]
    have "avgLoss ?s = Some (-1)"
      by (simp only: Stats.select_convs avgLoss_of_minus_one)
    with m show ?thesis by (rule conjI [rotated])
  qed
  show ?thesis
  proof (intro exI [of _ ?s] conjI impI)
    show "getStats ?data t = Some ?s" by (fact g)
    show "dataPoints ?s = length ?lx + 1 + length ?ly" by (fact dp)
    show "maxLoss ?s = Max (insert (-1) (set ?lx \<union> set ?ly))" by (fact mx)
    show "avgLoss ?s =
         js_div
           (map_option Math_round
              (js_mul
                 (js_div
                    (foldl js_add
                       (js_add (foldl js_add (Some 0) (map Some ?lx)) (Some (-1)))
                       (map Some ?ly))
                    (Some (real (length ?lx + 1 + length ?ly))))
                 (Some 100)))
           (Some 100)" by (fact av)
  next
    assume "length ?data < 2 ^ 32
          \<and> (\<forall>e \<in> set (xs @ ys). metricValue t e \<noteq> -1 \<longrightarrow> metricLoss t e = -1)"
    then show "avgLoss ?s = Some (-1)" using all by blast
  next
    assume "length ?data < 2 ^ 32
          \<and> (\<forall>e \<in> set (xs @ ys). metricValue t e \<noteq> -1 \<longrightarrow> metricLoss t e = -1)"
    then show "maxLoss ?s = -1" using all by blast
  qed
qed

theorem getStats_sentinel_loss_included_witness:
  "\<exists>s. getStats [sample_a, sample_c] cloudflare = Some s
     \<and> dataPoints s = 2 \<and> avgLoss s = Some (- (1 / 2)) \<and> maxLoss s = 0"
proof -
  have hyp: "metricValue cloudflare sample_c \<noteq> -1" "metricLoss cloudflare sample_c = -1"
    by (simp_all add: sample_c_def)
  have lx: "validLosses cloudflare [sample_a] = [0]"
    by (simp add: validLosses_def sample_a_def)
  have ly: "validLosses cloudflare ([] :: NetworkData list) = []"
    by (simp add: validLosses_def)
  have ar: "js_add (Some 0) (Some 0) = Some 0" "js_add (Some 0) (Some (-1)) = Some (-1)"
    "js_div (Some (-1)) (Some 2) = Some (- (1 / 2))"
    by (simp_all add: js_add_def js_div_def fl_eval)
  from getStats_sentinel_loss_included [OF hyp, of "[sample_a]" "[]"] show ?thesis
    unfolding lx ly
    by (auto simp add: ar js_mean_examples Math_round_examples)
qed

text \<open>
  A lone sample with the loss minus one, and the scenario of 120 healthy
  samples.
\<close>

lemma getStats_only_sentinel_loss:
  "\<exists>s. getStats [sample_c] cloudflare = Some s \<and> avgLoss s = Some (-1) \<and> maxLoss s = -1"
proof -
  have f: "filter (\<lambda>d. metricValue cloudflare d \<noteq> -1) [sample_c] \<noteq> []"
    by (simp add: sample_c_def)
  have ls: "validLosses cloudflare [sample_c] = [-1]"
    by (simp add: validLosses_def sample_c_def)
  have m: "js_mean [-1] = Some (-1)"
    by (rule js_mean_all_sentinel) simp_all
  show ?thesis
    unfolding getStats_Some [OF f] ls m
    by (simp add: avgLoss_of_minus_one Math_max_def)
qed

lemma getStats_all_healthy:
  "getStats (replicate 120 \<lparr>ping = 10, loss = 0, ping_dev = 10, loss_dev = 0\<rparr>) t =
     Some \<lparr>avgPing = Some 10, minPing = 10, maxPing = 10, avgLoss = Some 0, maxLoss = 0,
           dataPoints = 120, totalPoints = 120\<rparr>"
proof -
  let ?d = "\<lparr>ping = 10, loss = 0, ping_dev = 10, loss_dev = 0\<rparr>"
  have f: "filter (\<lambda>d. metricValue t d \<noteq> -1) (replicate 120 ?d) \<noteq> []"
    by (simp add: metricValue_if)
  have vs: "validValues t (replicate 120 ?d) = map of_int (replicate 120 10)"
    by (simp add: validValues_def metricValue_if)
  have ls: "validLosses t (replicate 120 ?d) = map of_int (replicate 120 0)"
    by (simp add: validLosses_def metricValue_if metricLoss_if)
  have sv: "foldl js_add (Some 0) (map Some (map of_int (replicate 120 10)))
              = Some (of_int (sum_list (replicate 120 10)))"
    by (rule js_sum_ints) (simp add: sum_list_replicate)
  have sl: "foldl js_add (Some 0) (map Some (map of_int (replicate 120 0)))
              = Some (of_int (sum_list (replicate 120 0)))"
    by (rule js_sum_ints) (simp add: sum_list_replicate)
  have mv: "js_mean (map of_int (replicate 120 10)) = Some 10"
    unfolding js_mean_def sv using fl_int [of 10]
    by (simp add: sum_list_replicate js_div_def)
  have ml: "js_mean (map of_int (replicate 120 0)) = Some 0"
    unfolding js_mean_def sl
    by (simp add: sum_list_replicate js_div_def fl_small_ints)
  have r: "Math_round 0 = 0" "Math_round 10 = 10"
    using Math_round_of_int [of 0] Math_round_of_int [of 10] by simp_all
  have z: "js_mul (Some 0) (Some 100) = Some 0" "js_div (Some 0) (Some 100) = Some 0"
    by (simp_all add: js_mul_def js_div_def fl_small_ints)
  show ?thesis
    unfolding getStats_Some [OF f] vs ls mv ml
    by (simp add: Math_min_Min Math_max_Max r z)
qed

subsection \<open>Fetch failures\<close>

lemma fetchNetworkData_v1_thrown:
  assumes "selectedISP st \<noteq> []" and "try_v1 outcome = None"
  shows "fetchNetworkData_v1 st outcome
           = st\<lparr>networkData := [], loading := False, error := NetworkDataError\<rparr>"
  using assms by (simp add: fetchNetworkData_v1_def Let_def)

lemma fetchNetworkData_v2_thrown:
  assumes "selectedISP st \<noteq> []" and "try_v2 outcome = None"
  shows "fetchNetworkData_v2 st outcome
           = st\<lparr>networkData := [], loading := False, error := NetworkDataError\<rparr>"
  using assms by (simp add: fetchNetworkData_v2_def Let_def)

text \<open>
  C9. When an ISP is selected and the request fails, by a network error or by a
  response whose status is not a success, the handler of either revision
  leaves the state with the network-data error message and with an empty sample
  set, whatever samples it held before.
\<close>

theorem fetchNetworkData_failure:
  assumes "selectedISP st \<noteq> []" and "selectedISP st2 \<noteq> []"
    and "outcome = NetworkFailure \<or> (\<exists>body. outcome = Response False body)"
  shows "error (fetchNetworkData_v1 st outcome) = NetworkDataError
       \<and> networkData (fetchNetworkData_v1 st outcome) = []
       \<and> error (fetchNetworkData_v2 st2 outcome) = NetworkDataError
       \<and> networkData (fetchNetworkData_v2 st2 outcome) = []"
proof -
  from assms(3) have "try_v1 outcome = None" and "try_v2 outcome = None"
    by (auto simp add: try_v1_def try_v2_def)
  with assms(1,2) show ?thesis
    by (simp add: fetchNetworkData_v1_thrown fetchNetworkData_v2_thrown)
qed

theorem fetchNetworkData_failure_witness:
  "networkData state_v1 \<noteq> [] \<and> networkData state_v2 \<noteq> []
   \<and> error (fetchNetworkData_v1 state_v1 NetworkFailure) = NetworkDataError
   \<and> networkData (fetchNetworkData_v1 state_v1 NetworkFailure) = []
   \<and> error (fetchNetworkData_v2 state_v2 (Response False None)) = NetworkDataError
   \<and> networkData (fetchNetworkData_v2 state_v2 (Response False None)) = []"
proof -
  have ne: "networkData state_v1 \<noteq> []" "networkData state_v2 \<noteq> []"
    by (simp_all add: state_v1_def state_v2_def formatData_def)
  have isp: "selectedISP state_v1 \<noteq> []" "selectedISP state_v2 \<noteq> []"
    by (simp_all add: state_v1_def state_v2_def)
  from fetchNetworkData_failure [OF isp, of NetworkFailure]
    fetchNetworkData_failure [OF isp, of "Response False None"] ne
  show ?thesis by simp
qed

subsection \<open>Response shapes\<close>

text \<open>
  C8, as stated, fails: neither revision accepts both shapes. The later
  handler reads \<open>responseData.data.map\<close>, so a bare array of samples ends in
  the \<open>catch\<close> branch; the earlier one reads \<open>data.map\<close>, so the envelope does.
\<close>

theorem fetchNetworkData_shapes_counterexample:
  "error (fetchNetworkData_v2 state_v2 (Response True (Some (JArray [sample_a]))))
      = NetworkDataError
   \<and> networkData (fetchNetworkData_v2 state_v2 (Response True (Some (JArray [sample_a])))) = []
   \<and> error (fetchNetworkData_v1 state_v1
        (Response True (Some (JObject (Some [sample_a]) (Some 1700000000123)))))
      = NetworkDataError"
  by (simp add: fetchNetworkData_v1_def fetchNetworkData_v2_def try_v1_def try_v2_def
      state_v1_def state_v2_def Let_def)

lemma length_formatData: "length (formatData items) = length items"
  by (simp add: formatData_def)

lemma nth_formatData:
  "i < length items \<Longrightarrow>
   formatData items ! i =
     \<lparr>ping = ping (items ! i), loss = loss (items ! i), ping_dev = ping_dev (items ! i),
      loss_dev = loss_dev (items ! i), time = i + 1\<rparr>"
  by (simp add: formatData_def nth_enumerate_eq)

lemma formatData_fields:
  "map (\<lambda>d. (ping d, loss d, ping_dev d, loss_dev d)) (formatData items)
     = map (\<lambda>d. (ping d, loss d, ping_dev d, loss_dev d)) items"
  by (rule nth_equalityI) (simp_all add: length_formatData nth_formatData)

lemma getAllTimePoints_v2_last:
  "0 < r \<Longrightarrow> last (getAllTimePoints_v2 clock r now) = currentTime clock now"
  by (simp add: getAllTimePoints_v2_eq_v1 getAllTimePoints_v1_last)

text \<open>
  C8, amended. With an ISP selected, the later handler accepts the envelope:
  the samples are those of \<open>data\<close> (each with its position added), \<open>serverNow\<close>
  is the \<open>now\<close> field, and the timeline of a positive range ends at \<open>now\<close> when
  it is present and not zero, at the local clock when it is absent. A bare
  array is not accepted by this handler: it is handled as a failed fetch. The
  earlier handler accepts the bare array and handles the envelope as a failed
  fetch.
\<close>

theorem fetchNetworkData_v2_envelope:
  assumes "selectedISP st \<noteq> []" and "selectedISP st1 \<noteq> []"
  shows "error (fetchNetworkData_v2 st (Response True (Some (JObject (Some items) n)))) = NoError
     \<and> networkData (fetchNetworkData_v2 st (Response True (Some (JObject (Some items) n))))
         = formatData items
     \<and> map (\<lambda>d. (ping d, loss d, ping_dev d, loss_dev d)) (formatData items)
         = map (\<lambda>d. (ping d, loss d, ping_dev d, loss_dev d)) items
     \<and> serverNow (fetchNetworkData_v2 st (Response True (Some (JObject (Some items) n)))) = n
     \<and> (\<forall>clock r m. 0 < r \<and> n = Some m \<and> m \<noteq> 0 \<longrightarrow>
           last (getAllTimePoints_v2 clock r
             (serverNow (fetchNetworkData_v2 st (Response True (Some (JObject (Some items) n))))))
           = m)
     \<and> (\<forall>clock r. 0 < r \<and> n = None \<longrightarrow>
           last (getAllTimePoints_v2 clock r
             (serverNow (fetchNetworkData_v2 st (Response True (Some (JObject (Some items) n))))))
           = clock)
     \<and> error (fetchNetworkData_v2 st (Response True (Some (JArray items)))) = NetworkDataError
     \<and> networkData (fetchNetworkData_v2 st (Response True (Some (JArray items)))) = []
     \<and> error (fetchNetworkData_v1 st1 (Response True (Some (JArray items)))) = NoError
     \<and> networkData (fetchNetworkData_v1 st1 (Response True (Some (JArray items))))
         = formatData items
     \<and> error (fetchNetworkData_v1 st1 (Response True (Some (JObject (Some items) n))))
         = NetworkDataError
     \<and> networkData (fetchNetworkData_v1 st1 (Response True (Some (JObject (Some items) n))))
         = []"
proof -
  have v1: "try_v1 (Response True (Some (JArray items))) = Some (formatData items)"
    "try_v1 (Response True (Some (JObject (Some items) n))) = None"
    by (simp_all add: try_v1_def)
  have st1': "fetchNetworkData_v1 st1 (Response True (Some (JArray items)))
      = st1\<lparr>networkData := formatData items, loading := False, error := NoError\<rparr>"
    using assms(2) by (simp add: fetchNetworkData_v1_def v1 Let_def)
  have ok: "try_v2 (Response True (Some (JObject (Some items) n))) = Some (formatData items, n)"
    by (simp add: try_v2_def)
  have bare: "try_v2 (Response True (Some (JArray items))) = None"
    by (simp add: try_v2_def)
  have st': "fetchNetworkData_v2 st (Response True (Some (JObject (Some items) n)))
      = st\<lparr>networkData := formatData items, loading := False, error := NoError,
           lastUpdated := Some n, serverNow := n\<rparr>"
    using assms(1) by (simp add: fetchNetworkData_v2_def ok Let_def)
  show ?thesis
    unfolding st' st1' fetchNetworkData_v2_thrown [OF assms(1) bare]
      fetchNetworkData_v1_thrown [OF assms(2) v1(2)]
    by (simp add: formatData_fields getAllTimePoints_v2_last currentTime_def)
qed

theorem fetchNetworkData_v2_envelope_witness:
  "error (fetchNetworkData_v2 state_v2
      (Response True (Some (JObject (Some [sample_c]) (Some 1700000000123))))) = NoError
   \<and> networkData (fetchNetworkData_v2 state_v2
      (Response True (Some (JObject (Some [sample_c]) (Some 1700000000123)))))
       = [\<lparr>ping = 15, loss = -1, ping_dev = -1, loss_dev = 2, time = 1\<rparr>]
   \<and> last (getAllTimePoints_v2 1700000000999 5
        (serverNow (fetchNetworkData_v2 state_v2
          (Response True (Some (JObject (Some [sample_c]) (Some 1700000000123)))))))
       = 1700000000123
   \<and> last (getAllTimePoints_v2 1700000000999 5
        (serverNow (fetchNetworkData_v2 state_v2
          (Response True (Some (JObject (Some [sample_c]) None))))))
       = 1700000000999"
proof -
  have isp: "selectedISP state_v2 \<noteq> []" "selectedISP state_v1 \<noteq> []"
    by (simp_all add: state_v2_def state_v1_def)
  note a = fetchNetworkData_v2_envelope [OF isp, of "[sample_c]" "Some 1700000000123"]
  note b = fetchNetworkData_v2_envelope [OF isp, of "[sample_c]" None]
  from a have 1: "error (fetchNetworkData_v2 state_v2
      (Response True (Some (JObject (Some [sample_c]) (Some 1700000000123))))) = NoError"
    by blast
  from a have "networkData (fetchNetworkData_v2 state_v2
      (Response True (Some (JObject (Some [sample_c]) (Some 1700000000123)))))
       = formatData [sample_c]"
    by blast
  then have 2: "networkData (fetchNetworkData_v2 state_v2
      (Response True (Some (JObject (Some [sample_c]) (Some 1700000000123)))))
       = [\<lparr>ping = 15, loss = -1, ping_dev = -1, loss_dev = 2, time = 1\<rparr>]"
    by (simp add: formatData_def sample_c_def)
  from a have "(0::int) < 5 \<and> Some (1700000000123::int) = Some 1700000000123
        \<and> (1700000000123::int) \<noteq> 0 \<longrightarrow>
     last (getAllTimePoints_v2 1700000000999 5
        (serverNow (fetchNetworkData_v2 state_v2
          (Response True (Some (JObject (Some [sample_c]) (Some 1700000000123)))))))
       = 1700000000123"
    by blast
  then have 3: "last (getAllTimePoints_v2 1700000000999 5
        (serverNow (fetchNetworkData_v2 state_v2
          (Response True (Some (JObject (Some [sample_c]) (Some 1700000000123)))))))
       = 1700000000123"
    by simp
  from b have "(0::int) < 5 \<and> (None :: int option) = None \<longrightarrow>
     last (getAllTimePoints_v2 1700000000999 5
        (serverNow (fetchNetworkData_v2 state_v2
          (Response True (Some (JObject (Some [sample_c]) None))))))
       = 1700000000999"
    by blast
  then have 4: "last (getAllTimePoints_v2 1700000000999 5
        (serverNow (fetchNetworkData_v2 state_v2
          (Response True (Some (JObject (Some [sample_c]) None))))))
       = 1700000000999"
    by simp
  from 1 2 3 4 show ?thesis by blast
qed

end
